theory Spec2Isabelle
  imports Main "HOL-Library.Sublist"
begin

section \<open>Strings and the character classes of the patterns\<close>

text \<open>
  A JavaScript string is a sequence of UTF-16 code units. A code unit is modelled by its
  number, so that the character classes of the regular expressions (\<open>\s\<close>, \<open>\d\<close>, \<open>.\<close>)
  and \<open>String.prototype.trim\<close> are the ones of the language and not those of a byte
  string. \<open>js\<close> turns an ASCII literal into such a string.
\<close>

type_synonym jschar = nat
type_synonym jsstring = "jschar list"

definition js :: "string \<Rightarrow> jsstring" where
  "js s = map of_char s"

text \<open>The due-date annotation of a date, as it is written in a note.\<close>

definition annotation :: "string \<Rightarrow> jsstring" where
  "annotation d = js (CHR ''@'' # ''{'' @ d @ ''}'')"

text \<open>
  \<open>\s\<close> is WhiteSpace together with LineTerminator: TAB, LF, VT, FF, CR, SP, NBSP,
  U+1680, U+2000..U+200A, U+2028, U+2029, U+202F, U+205F, U+3000 and U+FEFF. \<open>trim\<close> strips
  exactly the same set.
\<close>

definition isSpace :: "jschar \<Rightarrow> bool" where
  "isSpace c \<longleftrightarrow>
     (9 \<le> c \<and> c \<le> 13) \<or> c = 32 \<or> c = 160 \<or> c = 5760 \<or> (8192 \<le> c \<and> c \<le> 8202) \<or>
     c = 8232 \<or> c = 8233 \<or> c = 8239 \<or> c = 8287 \<or> c = 12288 \<or> c = 65279"

text \<open>\<open>\d\<close> is \<open>[0-9]\<close>.\<close>

definition isDigit :: "jschar \<Rightarrow> bool" where
  "isDigit c \<longleftrightarrow> 48 \<le> c \<and> c \<le> 57"

text \<open>\<open>.\<close> (without the \<open>s\<close> flag) is any code unit but LF, CR, U+2028 and U+2029.\<close>

definition isDot :: "jschar \<Rightarrow> bool" where
  "isDot c \<longleftrightarrow> c \<noteq> 10 \<and> c \<noteq> 13 \<and> c \<noteq> 8232 \<and> c \<noteq> 8233"

definition isChar :: "char \<Rightarrow> jschar \<Rightarrow> bool" where
  "isChar a c \<longleftrightarrow> c = of_char a"

text \<open>
  A pattern that is a plain sequence of one-character classes matches at the start of
  \<open>s\<close> when \<open>s\<close> is long enough and its first characters are in the classes, in order.
\<close>

fun matchesAt :: "(jschar \<Rightarrow> bool) list \<Rightarrow> jsstring \<Rightarrow> bool" where
  "matchesAt [] s = True"
| "matchesAt (p # ps) [] = False"
| "matchesAt (p # ps) (c # cs) = (p c \<and> matchesAt ps cs)"

text \<open>A match of \<open>/^\s+/\<close>: the string starts with a white space character.\<close>

definition startsWithSpace :: "jsstring \<Rightarrow> bool" where
  "startsWithSpace s = (case s of [] \<Rightarrow> False | c # _ \<Rightarrow> isSpace c)"

text \<open>\<open>s.trim()\<close>\<close>

definition trim :: "jsstring \<Rightarrow> jsstring" where
  "trim s = rev (dropWhile isSpace (rev (dropWhile isSpace s)))"

text \<open>\<open>xs.join('\n')\<close>\<close>

fun joinNewline :: "jsstring list \<Rightarrow> jsstring" where
  "joinNewline [] = []"
| "joinNewline [x] = x"
| "joinNewline (x # y # ys) = x @ [10] @ joinNewline (y # ys)"

text \<open>
  \<open>s.replace(pat, '')\<close> with a string pattern: the first occurrence of \<open>pat\<close> is removed,
  and \<open>s\<close> is returned as it is when \<open>pat\<close> does not occur.
\<close>

fun replaceFirst :: "jsstring \<Rightarrow> jsstring \<Rightarrow> jsstring" where
  "replaceFirst pat [] = []"
| "replaceFirst pat (c # cs) =
     (if prefix pat (c # cs) then drop (length pat) (c # cs) else c # replaceFirst pat cs)"

text \<open>The decimal digits of a number, as template literals and moment's zeroFill write it.\<close>

fun showNat :: "nat \<Rightarrow> jsstring" where
  "showNat n = (if n < 10 then [48 + n] else showNat (n div 10) @ [48 + n mod 10])"

declare showNat.simps [simp del]

definition zeroFill :: "nat \<Rightarrow> nat \<Rightarrow> jsstring" where
  "zeroFill n width = replicate (width - length (showNat n)) 48 @ showNat n"

text \<open>The number written by a string of decimal digits (moment's \<open>toInt\<close> on a match of \<open>\d+\<close>).\<close>

definition toInt :: "jsstring \<Rightarrow> nat" where
  "toInt s = foldl (\<lambda>acc c. 10 * acc + (c - 48)) 0 s"

section \<open>moment and Date\<close>

text \<open>
  The moment library and the built-in Date are not part of the repository. A moment and
  a Date are modelled by the local wall-clock fields they denote, \<open>None\<close> being an
  invalid moment (respectively an Invalid Date). The month is counted from 1, as it is
  written.
\<close>

record LocalTime =
  years :: nat
  months :: nat
  days :: nat
  hours :: nat
  minutes :: nat
  seconds :: nat
  milliseconds :: nat

type_synonym Moment = "LocalTime option"
type_synonym JSDate = "LocalTime option"

definition isLeapYear :: "nat \<Rightarrow> bool" where
  "isLeapYear y \<longleftrightarrow> (y mod 4 = 0 \<and> y mod 100 \<noteq> 0) \<or> y mod 400 = 0"

definition daysInMonth :: "nat \<Rightarrow> nat \<Rightarrow> nat" where
  "daysInMonth y m =
     (if m = 2 then (if isLeapYear y then 29 else 28)
      else if m = 4 \<or> m = 6 \<or> m = 9 \<or> m = 11 then 30 else 31)"

text \<open>
  \<open>moment(input, 'YYYY-MM-DD')\<close> for an input of the shape \<open>dddd-dd-dd\<close>, the only shape
  group 1 of the due-date pattern has: the three numbers are read, a month outside 1..12 or
  a day outside the month makes the moment invalid, and the time of day is midnight.
\<close>

definition isoDateShape :: "(jschar \<Rightarrow> bool) list" where
  "isoDateShape =
     [isDigit, isDigit, isDigit, isDigit, isChar CHR ''-'', isDigit, isDigit, isChar CHR ''-'',
      isDigit, isDigit]"

definition momentParse :: "jsstring \<Rightarrow> Moment" where
  "momentParse input =
     (if length input = 10 \<and> matchesAt isoDateShape input then
        (let y = toInt (take 4 input); m = toInt (take 2 (drop 5 input));
             d = toInt (take 2 (drop 8 input))
         in if 1 \<le> m \<and> m \<le> 12 \<and> 1 \<le> d \<and> d \<le> daysInMonth y m
            then Some \<lparr>years = y, months = m, days = d, hours = 0, minutes = 0, seconds = 0,
                       milliseconds = 0\<rparr>
            else None)
      else None)"

text \<open>\<open>m.clone()\<close>, \<open>m.toDate()\<close> and \<open>m.format('YYYYMMDDHHmm')\<close>\<close>

definition clone :: "Moment \<Rightarrow> Moment" where
  "clone m = m"

definition toDate :: "Moment \<Rightarrow> JSDate" where
  "toDate m = m"

definition formatYYYYMMDDHHmm :: "Moment \<Rightarrow> jsstring" where
  "formatYYYYMMDDHHmm m =
     (case m of
        None \<Rightarrow> js ''Invalid date''
      | Some t \<Rightarrow>
          zeroFill (years t) 4 @ zeroFill (months t) 2 @ zeroFill (days t) 2 @
          zeroFill (hours t) 2 @ zeroFill (minutes t) 2)"

section \<open>parser.ts\<close>

datatype TaskStatus =
  Todo | Done | Cancelled | Forwarded | Deferred | InProgress | Question
| Important | Info | Bookmark | Pro | Con | Brainstorming | Example | Quote | Note
| Win | Lose | Add | Reviewed
| Unknown
| NotATask

text \<open>The table \<open>STATUS_MAPPING\<close>, keyed by the status character.\<close>

definition STATUS_MAPPING :: "(char \<times> TaskStatus) list" where
  "STATUS_MAPPING =
     [(CHR '' '', Todo), (CHR ''x'', Done), (CHR ''X'', Done), (CHR ''-'', Cancelled),
      (CHR ''>'', Forwarded), (CHR ''D'', Deferred), (CHR ''/'', InProgress),
      (CHR ''?'', Question), (CHR ''!'', Important), (CHR ''i'', Info), (CHR ''B'', Bookmark),
      (CHR ''P'', Pro), (CHR ''C'', Con), (CHR ''b'', Brainstorming), (CHR ''E'', Example),
      (CHR ''Q'', Quote), (CHR ''N'', Note), (CHR ''W'', Win), (CHR ''L'', Lose),
      (CHR ''+'', Add), (CHR ''R'', Reviewed)]"

text \<open>The status the table gives for a character: \<open>STATUS_MAPPING[c]\<close>.\<close>

definition statusOf :: "jschar \<Rightarrow> TaskStatus option" where
  "statusOf c = map_of (map (\<lambda>(k, v). (of_char k :: nat, v)) STATUS_MAPPING) c"

record TimeInfo =
  hour :: nat
  minute :: nat
  second :: "nat option"
  isEndTime :: "bool option"

text \<open>The field \<open>type\<close> of a DateInfo has the literal type \<open>'date'\<close>.\<close>

datatype DateInfoType = TypeDate

record DateInfo =
  date :: jsstring
  moment :: Moment
  type :: DateInfoType
  rawMatch :: "jsstring option"

record ParsedLine =
  originalLine :: jsstring
  content :: jsstring
  indentation :: jsstring
  isTask :: bool
  taskStatus :: "TaskStatus option"
  statusCharacter :: "jsstring option"
  startTime :: "TimeInfo option"
  endTime :: "TimeInfo option"
  dates :: "DateInfo list"
  hasRecurrence :: bool
  recurrenceRule :: "jsstring option"
  blockLink :: "jsstring option"
  isListItem :: bool
  listMarker :: jsstring

record ListEntry =
  header :: jsstring
  body :: jsstring

subsection \<open>extractDates\<close>

text \<open>
  \<open>PATTERNS.DUE_DATE\<close>, with the flag \<open>g\<close>: an optional \<open>\s\<close>, an at sign, an opening
  brace (literal, as no quantifier follows), the group \<open>(\d{4}-\d{2}-\d{2})\<close> and a closing
  brace. After the optional white space the pattern is a sequence of thirteen
  one-character classes.
\<close>

definition dueDateTail :: "(jschar \<Rightarrow> bool) list" where
  "dueDateTail = [isChar CHR ''@'', isChar CHR ''{''] @ isoDateShape @ [isChar CHR ''}'']"

text \<open>
  A match of the pattern starting exactly at the start of \<open>s\<close>, as the pair of the matched
  text (\<open>match[0]\<close>) and of group 1 (\<open>match[1]\<close>). The optional \<open>\s\<close> is greedy: the
  matcher first tries to take a white space character, and the empty alternative is left
  for a string that starts with \<open>@\<close>.
\<close>

definition matchDueDateAt :: "jsstring \<Rightarrow> (jsstring \<times> jsstring) option" where
  "matchDueDateAt s =
     (case s of
        [] \<Rightarrow> None
      | c # cs \<Rightarrow>
          if isSpace c \<and> matchesAt dueDateTail cs then Some (take 14 s, take 10 (drop 3 s))
          else if matchesAt dueDateTail s then Some (take 13 s, take 10 (drop 2 s))
          else None)"

text \<open>
  \<open>[...line.matchAll(PATTERNS.DUE_DATE)]\<close>: the matches from left to right, each search
  resuming where the previous match ended. \<open>matchAll\<close> works on a copy of the pattern
  and starts at the pattern's \<open>lastIndex\<close>, which is 0: \<open>lineContainsTime\<close>, the one
  function that moves it, is not called on the way from a note to its events.
\<close>

function dueDateMatchAll :: "jsstring \<Rightarrow> (jsstring \<times> jsstring) list" where
  "dueDateMatchAll s =
     (case matchDueDateAt s of
        Some m \<Rightarrow> m # dueDateMatchAll (drop (length (fst m)) s)
      | None \<Rightarrow> (case s of [] \<Rightarrow> [] | c # cs \<Rightarrow> dueDateMatchAll cs))"
  by pat_completeness auto

lemma matchDueDateAt_length:
  "matchDueDateAt s = Some m \<Longrightarrow> 0 < length (fst m) \<and> s \<noteq> []"
  by (cases s) (auto simp: matchDueDateAt_def split: if_splits)

termination dueDateMatchAll
  by (relation "measure length") (auto dest: matchDueDateAt_length)

declare dueDateMatchAll.simps [simp del]

definition extractDates :: "jsstring \<Rightarrow> DateInfo list" where
  "extractDates line =
     map (\<lambda>m. \<lparr>date = snd m, moment = momentParse (snd m), type = TypeDate,
                rawMatch = Some (fst m)\<rparr>)
       (dueDateMatchAll line)"

subsection \<open>cleanContent\<close>

text \<open>An optional string is truthy when it is present and not empty.\<close>

definition truthy :: "jsstring option \<Rightarrow> bool" where
  "truthy s \<longleftrightarrow> (case s of None \<Rightarrow> False | Some t \<Rightarrow> t \<noteq> [])"

definition cleanContent :: "jsstring \<Rightarrow> DateInfo list \<Rightarrow> jsstring" where
  "cleanContent text ds =
     trim (foldl (\<lambda>result d. if truthy (rawMatch d) then replaceFirst (the (rawMatch d)) result
                               else result) text ds)"

subsection \<open>parseLine\<close>

definition parseLine :: "ListEntry \<Rightarrow> ParsedLine" where
  "parseLine line =
     (let result = \<lparr>originalLine = header line @ body line,
                     content = (if length (header line) = 0 then body line else header line),
                     indentation = [],
                     isTask = False,
                     taskStatus = None,
                     statusCharacter = None,
                     startTime = None,
                     endTime = None,
                     dates = [],
                     hasRecurrence = False,
                     recurrenceRule = None,
                     blockLink = None,
                     isListItem = False,
                     listMarker = []\<rparr>;
          result = result\<lparr>dates := extractDates (body line)\<rparr>;
          result = result\<lparr>content := cleanContent (content result) (dates result)\<rparr>
      in result)"

subsection \<open>PATTERNS.TASK\<close>

text \<open>
  The list marker of \<open>PATTERNS.LIST_ITEM\<close> and \<open>PATTERNS.TASK\<close>, \<open>(-|\*|\+|\d+\.)\<close>, at
  the start of \<open>s\<close>: the marker and what follows it. The alternatives start with
  different characters, and after the greedy \<open>\d+\<close> must come the dot.
\<close>

definition listMarkerAt :: "jsstring \<Rightarrow> (jsstring \<times> jsstring) option" where
  "listMarkerAt s =
     (case s of
        [] \<Rightarrow> None
      | c # r \<Rightarrow>
          if c = of_char CHR ''-'' \<or> c = of_char CHR ''*'' \<or> c = of_char CHR ''+'' then Some ([c], r)
          else
            (case dropWhile isDigit s of
               [] \<Rightarrow> None
             | d # r' \<Rightarrow>
                 if takeWhile isDigit s \<noteq> [] \<and> d = of_char CHR ''.''
                 then Some (takeWhile isDigit s @ [d], r') else None))"

text \<open>
  \<open>PATTERNS.TASK\<close> is \<open>/^(\s*)(-|\*|\+|\d+\.)\s+\[(.)\]\s+(.*)$/\<close>. A match gives the four
  groups: indentation, marker, status character and text. Without the flag \<open>m\<close> the
  \<open>$\<close> is the end of the string, so the text, which \<open>.*\<close> matches, holds no line
  terminator; it starts after all the white space that follows the checkbox.
\<close>

definition matchTASK :: "jsstring \<Rightarrow> (jsstring \<times> jsstring \<times> jschar \<times> jsstring) option" where
  "matchTASK line =
     (case listMarkerAt (dropWhile isSpace line) of
        None \<Rightarrow> None
      | Some (marker, r) \<Rightarrow>
          if startsWithSpace r then
            (case dropWhile isSpace r of
               a # c # b # r2 \<Rightarrow>
                 if a = of_char CHR ''['' \<and> isDot c \<and> b = of_char CHR '']'' \<and> startsWithSpace r2 \<and>
                    list_all isDot (dropWhile isSpace r2)
                 then Some (takeWhile isSpace line, marker, c, dropWhile isSpace r2)
                 else None
             | _ \<Rightarrow> None)
          else None)"

subsection \<open>convertToEvent\<close>

text \<open>
  \<open>Model.Event\<close> is declared outside the two source files; its fields are the ones
  \<open>convertToEvent\<close> writes and \<open>eventMatchesFilter\<close> reads. \<open>path\<close> is optional there
  (\<open>event.path!\<close>), as \<open>blockLink\<close> is.
\<close>

record Event =
  id_ev :: jsstring
  title :: jsstring
  start :: JSDate
  end_ev :: JSDate
  allDay :: bool
  eventType :: jsstring
  path :: "jsstring option"
  blockLink_ev :: "jsstring option"

text \<open>
  \<open>null\<close> is \<open>None\<close>. The working \<open>dueDate\<close> is a third clone that is never read.
  \<open>parsedLine.dates[0]\<close> is read only after \<open>hasDate\<close> has held, so the list is not
  empty there; the empty case of the model is the \<open>TypeError\<close> the read would raise.
\<close>

datatype error = TypeError

definition convertToEvent :: "ParsedLine \<Rightarrow> nat \<Rightarrow> jsstring \<Rightarrow> error + Event option" where
  "convertToEvent parsedLine lineIndex notePath =
     (let hasDate = list_ex (\<lambda>d. type d = TypeDate) (dates parsedLine) in
      if \<not> hasDate then Inr None
      else
        (case dates parsedLine of
           [] \<Rightarrow> Inl TypeError
         | d0 # _ \<Rightarrow>
             (let startDate = clone (moment d0);
                  endDate = clone (moment d0);
                  dueDate = clone (moment d0);
                  allDay' = True;
                  id' = formatYYYYMMDDHHmm startDate @ js ''00'' @ showNat lineIndex;
                  eventType' = js ''default'';
                  event = \<lparr>id_ev = id', title = content parsedLine, start = toDate startDate,
                            end_ev = toDate endDate, allDay = allDay', eventType = eventType',
                            path = Some notePath, blockLink_ev = None\<rparr>;
                  event = (if truthy (blockLink parsedLine)
                           then event\<lparr>blockLink_ev := blockLink parsedLine\<rparr> else event)
              in Inr (Some event))))"

subsection \<open>getMarkBasedOnEvent\<close>

text \<open>\<open>s.split('-')\<close>: the pieces of \<open>s\<close> between the hyphens; never an empty list.\<close>

fun splitHyphen :: "jsstring \<Rightarrow> jsstring list" where
  "splitHyphen [] = [[]]"
| "splitHyphen (c # cs) =
     (if c = of_char CHR ''-'' then [] # splitHyphen cs
      else (case splitHyphen cs of [] \<Rightarrow> [[c]] | p # ps \<Rightarrow> (c # p) # ps))"

text \<open>
  \<open>xs[1]\<close> of an array is \<open>undefined\<close> when the array has fewer than two elements.
\<close>

definition second_elem :: "'a list \<Rightarrow> 'a option" where
  "second_elem xs = (case xs of _ # x # _ \<Rightarrow> Some x | _ \<Rightarrow> None)"

text \<open>The result is a one-character string, or \<open>null\<close>.\<close>

definition getMarkBasedOnEvent :: "jsstring \<Rightarrow> jsstring option" where
  "getMarkBasedOnEvent eventType' =
     (if eventType' = [] \<or> \<not> prefix (js ''TASK-'') eventType' then None
      else
        (let taskType = second_elem (splitHyphen eventType') in
         if taskType = Some (js ''TODO'') then Some (js '' '')
         else if taskType = Some (js ''DONE'') then Some (js ''x'')
         else if taskType = Some (js ''CANCELLED'') then Some (js ''-'')
         else if taskType = Some (js ''IN_PROGRESS'') then Some (js ''/'')
         else if taskType = Some (js ''IMPORTANT'') then Some (js ''!'')
         else if taskType = Some (js ''QUESTION'') then Some (js ''?'')
         else if taskType = Some (js ''REVIEW'') then Some (js ''>'')
         else if taskType = Some (js ''IDEA'') then Some (js ''i'')
         else if taskType = Some (js ''PRO'') then Some (js ''+'')
         else if taskType = Some (js ''CON'') then Some (js ''-'')
         else if taskType = Some (js ''BRAINSTORMING'') then Some (js ''b'')
         else if taskType = Some (js ''EXAMPLE'') then Some (js ''e'')
         else if taskType = Some (js ''QUOTE'') then Some (js ''q'')
         else if taskType = Some (js ''NOTE'') then Some (js ''n'')
         else if taskType = Some (js ''WIN'') then Some (js ''w'')
         else if taskType = Some (js ''LOSE'') then Some (js ''l'')
         else Some (js '' '')))"

section \<open>getEventsFromFile\<close>

subsection \<open>The patterns of the line grouper\<close>

text \<open>
  \<open>/^\s*-\s+\[.\]/\<close>: what follows the match when the line matches, \<open>None\<close> when it
  does not. Neither \<open>-\<close> nor \<open>[\<close> is white space, so each greedy run of \<open>\s\<close> takes all
  the white space there is and giving characters back never helps.
\<close>

definition checklistRest :: "jsstring \<Rightarrow> jsstring option" where
  "checklistRest s =
     (case dropWhile isSpace s of
        [] \<Rightarrow> None
      | c # r \<Rightarrow>
          if c = of_char CHR ''-'' \<and> startsWithSpace r \<and>
             matchesAt [isChar CHR ''['', isDot, isChar CHR '']''] (dropWhile isSpace r)
          then Some (drop 3 (dropWhile isSpace r))
          else None)"

text \<open>\<open>line.match(/^\s*-\s+\[.\]/)\<close> as a condition\<close>

definition isChecklistLine :: "jsstring \<Rightarrow> bool" where
  "isChecklistLine s \<longleftrightarrow> checklistRest s \<noteq> None"

text \<open>\<open>line.replace(/^\s*-\s+\[.\]\s*/, '')\<close>\<close>

definition stripCheckbox :: "jsstring \<Rightarrow> jsstring" where
  "stripCheckbox s = (case checklistRest s of None \<Rightarrow> s | Some r \<Rightarrow> dropWhile isSpace r)"

subsection \<open>The loops\<close>

text \<open>
  The inner loop: the lines from \<open>nextIndex\<close> on that start with white space and are not
  checklist lines are pushed, trimmed, on \<open>bodyLines\<close>. The result is the final
  \<open>bodyLines\<close> and \<open>nextIndex\<close>.
\<close>

function collectBody :: "jsstring list \<Rightarrow> nat \<Rightarrow> jsstring list \<Rightarrow> jsstring list \<times> nat" where
  "collectBody fileLines nextIndex bodyLines =
     (if nextIndex < length fileLines \<and> startsWithSpace (fileLines ! nextIndex) \<and>
         \<not> isChecklistLine (fileLines ! nextIndex)
      then collectBody fileLines (nextIndex + 1) (bodyLines @ [trim (fileLines ! nextIndex)])
      else (bodyLines, nextIndex))"
  by pat_completeness auto
termination
  by (relation "measure (\<lambda>(fileLines, nextIndex, bodyLines). length fileLines - nextIndex)") auto

declare collectBody.simps [simp del]

lemma collectBody_index: "nextIndex \<le> snd (collectBody fileLines nextIndex bodyLines)"
proof (induction fileLines nextIndex bodyLines rule: collectBody.induct)
  case (1 fileLines nextIndex bodyLines)
  show ?case
  proof (cases "nextIndex < length fileLines \<and> startsWithSpace (fileLines ! nextIndex) \<and>
         \<not> isChecklistLine (fileLines ! nextIndex)")
    case True
    with 1 have "nextIndex + 1 \<le> snd (collectBody fileLines nextIndex bodyLines)"
      by (subst collectBody.simps) simp
    then show ?thesis by simp
  next
    case False
    then show ?thesis by (subst collectBody.simps) auto
  qed
qed

text \<open>
  The checklist branch up to \<open>listEntry.body = bodyLines.join('\n')\<close>: the entry that
  starts at the checklist line \<open>currentIndex\<close>, and the index after its body.
\<close>

definition checklistEntry :: "jsstring list \<Rightarrow> nat \<Rightarrow> ListEntry \<times> nat" where
  "checklistEntry fileLines currentIndex =
     (let line = fileLines ! currentIndex;
          header' = trim (stripCheckbox line);
          (bodyLines, nextIndex) = collectBody fileLines (currentIndex + 1) []
      in (\<lparr>header = header', body = joinNewline bodyLines\<rparr>, nextIndex))"

text \<open>
  What the function changes: the array \<open>result\<close> it returns, the array \<open>events\<close> of
  the caller, which receives the same events when it is given, and the notices shown.
\<close>

datatype Notice = Notice jsstring error

record Acc =
  result :: "Event list"
  events :: "Event list option"
  notices :: "Notice list"

text \<open>
  The \<open>try\<close> block of either branch; \<open>msg\<close> is the text of the notice of its \<open>catch\<close>.
\<close>

definition tryConvert :: "jsstring \<Rightarrow> ParsedLine \<Rightarrow> nat \<Rightarrow> jsstring \<Rightarrow> Acc \<Rightarrow> Acc" where
  "tryConvert msg parsedLine currentIndex notePath acc =
     (case convertToEvent parsedLine currentIndex notePath of
        Inl e \<Rightarrow> acc\<lparr>notices := notices acc @ [Notice msg e]\<rparr>
      | Inr None \<Rightarrow> acc
      | Inr (Some event) \<Rightarrow>
          acc\<lparr>result := result acc @ [event],
              events := map_option (\<lambda>es. es @ [event]) (events acc)\<rparr>)"

function scanLines :: "jsstring \<Rightarrow> jsstring list \<Rightarrow> nat \<Rightarrow> Acc \<Rightarrow> Acc" where
  "scanLines notePath fileLines currentIndex acc =
     (if currentIndex < length fileLines then
        (let line = fileLines ! currentIndex in
         if isChecklistLine line then
           (let listEntry = fst (checklistEntry fileLines currentIndex);
                nextIndex = snd (checklistEntry fileLines currentIndex);
                parsedLine = parseLine listEntry
            in scanLines notePath fileLines nextIndex
                 (tryConvert (js ''Got error when converting list to event: '') parsedLine
                    currentIndex notePath acc))
         else
           (let parsedLine = parseLine \<lparr>header = [], body = line\<rparr>
            in scanLines notePath fileLines (currentIndex + 1)
                 (tryConvert (js ''Got error when converting line to event: '') parsedLine
                    currentIndex notePath acc)))
      else acc)"
  by pat_completeness auto

lemma checklistEntry_index: "currentIndex < snd (checklistEntry fileLines currentIndex)"
proof -
  obtain bodyLines nextIndex
    where c: "collectBody fileLines (currentIndex + 1) [] = (bodyLines, nextIndex)"
    by (cases "collectBody fileLines (currentIndex + 1) []") auto
  with collectBody_index [of "currentIndex + 1" fileLines "[]"]
  have "currentIndex < nextIndex" by simp
  with c show ?thesis by (simp add: checklistEntry_def)
qed

termination scanLines
proof (relation "measure (\<lambda>(notePath, fileLines, currentIndex, acc). length fileLines - currentIndex)",
    goal_cases)
  case 1
  show ?case by simp
next
  case (2 notePath fileLines currentIndex acc line listEntry nextIndex parsedLine)
  then show ?case using checklistEntry_index [of currentIndex fileLines] by simp
next
  case 3
  then show ?case by simp
qed

declare scanLines.simps [simp del]

text \<open>
  \<open>note\<close> is the path of the note, or \<open>null\<close>; \<open>fileLines\<close> are the lines of the text
  the vault holds for it. The result is the array returned, together with the array
  \<open>events\<close> as the call leaves it and the notices.
\<close>

definition getEventsFromFile ::
  "jsstring option \<Rightarrow> jsstring list \<Rightarrow> Event list option \<Rightarrow> Acc" where
  "getEventsFromFile note fileLines events' =
     (case note of
        None \<Rightarrow> \<lparr>result = [], events = events', notices = []\<rparr>
      | Some notePath \<Rightarrow>
          scanLines notePath fileLines 0 \<lparr>result = [], events = events', notices = []\<rparr>)"

subsection \<open>The entries of a scan\<close>

text \<open>
  The loop hands each entry it assembles to \<open>parseLine\<close> at once and keeps none. To speak
  about them, \<open>entriesFrom\<close> lists the entries the loop assembles from \<open>currentIndex\<close>
  on, in order, each with the index of its first line; it walks the lines exactly as
  \<open>scanLines\<close> does.
\<close>

function entriesFrom :: "jsstring list \<Rightarrow> nat \<Rightarrow> (nat \<times> ListEntry) list" where
  "entriesFrom fileLines currentIndex =
     (if currentIndex < length fileLines then
        (let line = fileLines ! currentIndex in
         if isChecklistLine line then
           (currentIndex, fst (checklistEntry fileLines currentIndex)) #
           entriesFrom fileLines (snd (checklistEntry fileLines currentIndex))
         else
           (currentIndex, \<lparr>header = [], body = line\<rparr>) #
           entriesFrom fileLines (currentIndex + 1))
      else [])"
  by pat_completeness auto

termination entriesFrom
proof (relation "measure (\<lambda>(fileLines, currentIndex). length fileLines - currentIndex)", goal_cases)
  case 1
  show ?case by simp
next
  case (2 fileLines currentIndex line)
  then show ?case using checklistEntry_index [of currentIndex fileLines] by simp
next
  case 3
  then show ?case by simp
qed

declare entriesFrom.simps [simp del]

section \<open>eventMatchesFilter\<close>

text \<open>
  \<open>Query\<close> is declared outside the source files; these are the fields the predicate reads.
\<close>

record Query =
  eventTypeQ :: "jsstring option"
  contentRegex :: "jsstring option"
  folderPaths :: "jsstring list option"

text \<open>
  The regular expression engine is the language's. It is a parameter: \<open>new RegExp(p)\<close>
  either raises a SyntaxError (\<open>None\<close>) or gives a pattern, of which the predicate uses
  \<open>test\<close> alone. The \<open>catch\<close> only writes to the console.
\<close>

type_synonym RegExpEngine = "jsstring \<Rightarrow> (jsstring \<Rightarrow> bool) option"

definition eventMatchesFilter :: "RegExpEngine \<Rightarrow> Event \<Rightarrow> Query \<Rightarrow> bool" where
  "eventMatchesFilter newRegExp event filter' =
     (if truthy (eventTypeQ filter') \<and> eventType event \<noteq> the (eventTypeQ filter') then False
      else if truthy (contentRegex filter') \<and>
              (case newRegExp (the (contentRegex filter')) of
                 Some test \<Rightarrow> \<not> test (title event)
               | None \<Rightarrow> False)
      then False
      else if (case folderPaths filter' of
                 None \<Rightarrow> False
               | Some fps \<Rightarrow>
                   length fps > 0 \<and> truthy (path event) \<and>
                   \<not> list_ex (\<lambda>folderPath. prefix folderPath (the (path event))) fps)
      then False
      else True)"

section \<open>Notions for the proofs\<close>



section \<open>Example inputs\<close>

text \<open>An entry with two annotations in its body.\<close>

definition twoDates :: ListEntry where
  "twoDates = \<lparr>header = js ''Pay rent'',
     body = annotation ''2024-04-10'' @ js '' or '' @ annotation ''2024-05-11''\<rparr>"

text \<open>The entry of the example: a start on 2024-03-01.\<close>

definition march1 :: ParsedLine where
  "march1 = parseLine \<lparr>header = js ''Buy milk'', body = annotation ''2024-03-01''\<rparr>"

text \<open>The kinds \<open>getMarkBasedOnEvent\<close> has a \<open>case\<close> for.\<close>

definition recognizedKinds :: "jsstring list" where
  "recognizedKinds =
     [js ''TODO'', js ''DONE'', js ''CANCELLED'', js ''IN_PROGRESS'', js ''IMPORTANT'',
      js ''QUESTION'', js ''REVIEW'', js ''IDEA'', js ''PRO'', js ''CON'', js ''BRAINSTORMING'',
      js ''EXAMPLE'', js ''QUOTE'', js ''NOTE'', js ''WIN'', js ''LOSE'']"

text \<open>
  A small engine to run the filter with: \<open>(\<close> does not compile, and any other pattern
  tests whether the text starts with it.
\<close>

definition toyRegExp :: RegExpEngine where
  "toyRegExp p = (if p = js ''('' then None else Some (\<lambda>s. prefix p s))"

text \<open>An event in the folder \<open>work/\<close>.\<close>

definition workEvent :: Event where
  "workEvent = \<lparr>id_ev = js ''202403010000002'', title = js ''Buy milk'',
     start = Some \<lparr>years = 2024, months = 3, days = 1, hours = 0, minutes = 0, seconds = 0, milliseconds = 0\<rparr>,
     end_ev = Some \<lparr>years = 2024, months = 3, days = 1, hours = 0, minutes = 0, seconds = 0, milliseconds = 0\<rparr>,
     allDay = True, eventType = js ''default'', path = Some (js ''work/a.md''), blockLink_ev = None\<rparr>"

text \<open>
  The note of the scenario, the checklist line at index 2: with the annotation on the
  checklist line itself, and with the annotation on an indented line below it; and the
  event of the scenario.
\<close>

definition buyMilkHeader :: "jsstring list" where
  "buyMilkHeader = [[], [], js ''- [ ] Buy milk '' @ annotation ''2024-03-01'']"

definition buyMilkBody :: "jsstring list" where
  "buyMilkBody = [[], [], js ''- [ ] Buy milk'', js ''  '' @ annotation ''2024-03-01'']"

definition buyMilkEvent :: Event where
  "buyMilkEvent = \<lparr>id_ev = js ''202403010000002'', title = js ''Buy milk'',
     start = Some \<lparr>years = 2024, months = 3, days = 1, hours = 0, minutes = 0, seconds = 0, milliseconds = 0\<rparr>,
     end_ev = Some \<lparr>years = 2024, months = 3, days = 1, hours = 0, minutes = 0, seconds = 0, milliseconds = 0\<rparr>,
     allDay = True, eventType = js ''default'', path = Some (js ''notes/todo.md''),
     blockLink_ev = None\<rparr>"

text \<open>
  A note with a checklist line, an indented line below it that holds an annotation and a line
  that is not indented, with an annotation of its own; and the two events of the note.
\<close>

definition callBob :: "jsstring list" where
  "callBob = [js ''# Tasks'', js ''- [ ] Call Bob'', js ''    '' @ annotation ''2024-03-01'' @ js ''  '',
     js ''Other note '' @ annotation ''2024-03-02'']"

definition callBobEvents :: "Event list" where
  "callBobEvents =
     [\<lparr>id_ev = js ''202403010000001'', title = js ''Call Bob'',
        start = Some \<lparr>years = 2024, months = 3, days = 1, hours = 0, minutes = 0, seconds = 0, milliseconds = 0\<rparr>,
        end_ev = Some \<lparr>years = 2024, months = 3, days = 1, hours = 0, minutes = 0, seconds = 0, milliseconds = 0\<rparr>,
        allDay = True, eventType = js ''default'', path = Some (js ''a.md''), blockLink_ev = None\<rparr>,
      \<lparr>id_ev = js ''202403020000003'', title = js ''Other note'',
        start = Some \<lparr>years = 2024, months = 3, days = 2, hours = 0, minutes = 0, seconds = 0, milliseconds = 0\<rparr>,
        end_ev = Some \<lparr>years = 2024, months = 3, days = 2, hours = 0, minutes = 0, seconds = 0, milliseconds = 0\<rparr>,
        allDay = True, eventType = js ''default'', path = Some (js ''a.md''), blockLink_ev = None\<rparr>]"



section \<open>Evaluation and helper lemmas\<close>

text \<open>The definitions a concrete run unfolds.\<close>

lemmas string_eval = js_def annotation_def trim_def isSpace_def isDigit_def isDot_def isChar_def zeroFill_def
  showNat.simps toInt_def truthy_def Let_def
lemmas moment_eval = momentParse_def isoDateShape_def isLeapYear_def daysInMonth_def
  formatYYYYMMDDHHmm_def clone_def toDate_def
lemmas parser_eval = dueDateTail_def matchDueDateAt_def dueDateMatchAll.simps extractDates_def
  cleanContent_def parseLine_def convertToEvent_def
lemmas grouper_eval = startsWithSpace_def checklistRest_def isChecklistLine_def stripCheckbox_def
  collectBody.simps checklistEntry_def tryConvert_def scanLines.simps getEventsFromFile_def
  entriesFrom.simps listMarkerAt_def matchTASK_def

lemma hasDate_iff: "list_ex (\<lambda>d. type d = TypeDate) ds \<longleftrightarrow> ds \<noteq> []"
proof -
  have h: "t = TypeDate" for t :: DateInfoType by (cases t) simp
  show ?thesis by (cases ds) (simp_all add: h)
qed

lemma convertToEvent_empty: "dates parsedLine = [] \<Longrightarrow> convertToEvent parsedLine lineIndex notePath = Inr None"
  by (simp add: convertToEvent_def)

lemma convertToEvent_Cons:
  "dates parsedLine = d0 # ds \<Longrightarrow>
   convertToEvent parsedLine lineIndex notePath =
     Inr (Some \<lparr>id_ev = formatYYYYMMDDHHmm (clone (moment d0)) @ js ''00'' @ showNat lineIndex,
                title = content parsedLine, start = toDate (clone (moment d0)),
                end_ev = toDate (clone (moment d0)), allDay = True, eventType = js ''default'',
                path = Some notePath,
                blockLink_ev = (if truthy (blockLink parsedLine) then blockLink parsedLine else None)\<rparr>)"
  by (simp add: convertToEvent_def hasDate_iff Let_def)

lemma extractDates_midnight:
  "d \<in> set (extractDates line) \<Longrightarrow> moment d = Some t \<Longrightarrow>
   hours t = 0 \<and> minutes t = 0 \<and> seconds t = 0 \<and> milliseconds t = 0"
  by (auto simp: extractDates_def momentParse_def Let_def split: if_splits)

lemma getMarkBasedOnEvent_not_task:
  "\<not> prefix (js ''TASK-'') label \<Longrightarrow> getMarkBasedOnEvent label = None"
  by (simp add: getMarkBasedOnEvent_def)

lemma getMarkBasedOnEvent_task:
  "prefix (js ''TASK-'') label \<Longrightarrow> getMarkBasedOnEvent label \<noteq> None"
proof -
  assume p: "prefix (js ''TASK-'') label"
  then have "label \<noteq> []" by (auto simp: js_def)
  with p show ?thesis by (simp add: getMarkBasedOnEvent_def Let_def)
qed

lemma getMarkBasedOnEvent_default:
  assumes "prefix (js ''TASK-'') label"
    and "\<forall>k \<in> set recognizedKinds. second_elem (splitHyphen label) \<noteq> Some k"
  shows "getMarkBasedOnEvent label = Some (js '' '')"
proof -
  from assms(1) have "label \<noteq> []" by (auto simp: js_def)
  with assms show ?thesis
    by (simp add: getMarkBasedOnEvent_def Let_def recognizedKinds_def)
qed

text \<open>The inner loop stops at the first line that is not indented or is a checklist line.\<close>

lemma collectBody_stop:
  "\<not> (n < length ls \<and> startsWithSpace (ls ! n) \<and> \<not> isChecklistLine (ls ! n)) \<Longrightarrow>
   collectBody ls n b = (b, n)"
  by (subst collectBody.simps) auto

lemma collectBody_step:
  "n < length ls \<Longrightarrow> startsWithSpace (ls ! n) \<Longrightarrow> \<not> isChecklistLine (ls ! n) \<Longrightarrow>
   collectBody ls n b = collectBody ls (n + 1) (b @ [trim (ls ! n)])"
  by (subst collectBody.simps) simp

lemma collectBody_bound:
  "n \<le> i \<Longrightarrow> i \<le> length ls \<Longrightarrow>
   (i < length ls \<longrightarrow> \<not> startsWithSpace (ls ! i) \<or> isChecklistLine (ls ! i)) \<Longrightarrow>
   snd (collectBody ls n b) \<le> i"
proof (induction ls n b rule: collectBody.induct)
  case (1 fileLines nextIndex bodyLines)
  show ?case
  proof (cases "nextIndex < length fileLines \<and> startsWithSpace (fileLines ! nextIndex) \<and>
         \<not> isChecklistLine (fileLines ! nextIndex)")
    case True
    with 1(2,3,4) have "nextIndex \<noteq> i" by auto
    with 1(2) have "nextIndex + 1 \<le> i" by simp
    with 1(1) [OF True] 1(3,4) True show ?thesis by (simp add: collectBody_step)
  next
    case False
    with 1(2) show ?thesis by (simp add: collectBody_stop)
  qed
qed

lemma checklistEntry_eq:
  "checklistEntry ls j =
     (\<lparr>header = trim (stripCheckbox (ls ! j)),
       body = joinNewline (fst (collectBody ls (j + 1) []))\<rparr>,
      snd (collectBody ls (j + 1) []))"
  by (cases "collectBody ls (j + 1) []") (simp add: checklistEntry_def)

lemma checklistEntry_bound:
  "j < i \<Longrightarrow> i \<le> length ls \<Longrightarrow>
   (i < length ls \<longrightarrow> \<not> startsWithSpace (ls ! i) \<or> isChecklistLine (ls ! i)) \<Longrightarrow>
   snd (checklistEntry ls j) \<le> i"
  using collectBody_bound [of "j + 1" i ls "[]"] by (simp add: checklistEntry_eq)

text \<open>
  A line that is not indented, or is a checklist line, is never taken into a body: the scan
  arrives at it, and the entries from there on are a suffix of the entries of the file.
\<close>

lemma entriesFrom_suffix:
  "j \<le> i \<Longrightarrow> i \<le> length ls \<Longrightarrow>
   (i < length ls \<longrightarrow> \<not> startsWithSpace (ls ! i) \<or> isChecklistLine (ls ! i)) \<Longrightarrow>
   \<exists>before. entriesFrom ls j = before @ entriesFrom ls i \<and> (\<forall>ke \<in> set before. fst ke < i)"
proof (induction ls j rule: entriesFrom.induct)
  case (1 fileLines currentIndex)
  show ?case
  proof (cases "currentIndex = i")
    case True
    then show ?thesis by simp
  next
    case False
    with 1(3) have lt: "currentIndex < i" by simp
    with 1(4) have inb: "currentIndex < length fileLines" by simp
    show ?thesis
    proof (cases "isChecklistLine (fileLines ! currentIndex)")
      case True
      have "snd (checklistEntry fileLines currentIndex) \<le> i"
        using checklistEntry_bound [OF lt 1(4,5)] .
      from 1(1) [OF inb refl True this 1(4,5)]
      obtain before where
        b: "entriesFrom fileLines (snd (checklistEntry fileLines currentIndex)) =
           before @ entriesFrom fileLines i" "\<forall>ke \<in> set before. fst ke < i"
        by blast
      have "entriesFrom fileLines currentIndex =
          ((currentIndex, fst (checklistEntry fileLines currentIndex)) # before) @
          entriesFrom fileLines i"
        using inb True b(1) by (subst entriesFrom.simps) simp
      moreover have "\<forall>ke \<in> set ((currentIndex, fst (checklistEntry fileLines currentIndex)) # before).
          fst ke < i"
        using b(2) lt by simp
      ultimately show ?thesis by blast
    next
      case False
      from lt have "currentIndex + 1 \<le> i" by simp
      from 1(2) [OF inb refl False this 1(4,5)]
      obtain before where
        b: "entriesFrom fileLines (currentIndex + 1) = before @ entriesFrom fileLines i"
          "\<forall>ke \<in> set before. fst ke < i"
        by blast
      have "entriesFrom fileLines currentIndex =
          ((currentIndex, \<lparr>header = [], body = fileLines ! currentIndex\<rparr>) # before) @
          entriesFrom fileLines i"
        using inb False b(1) by (subst entriesFrom.simps) simp
      moreover have
        "\<forall>ke \<in> set ((currentIndex, \<lparr>header = [], body = fileLines ! currentIndex\<rparr>) # before).
          fst ke < i"
        using b(2) lt by simp
      ultimately show ?thesis by blast
    qed
  qed
qed



text \<open>\<open>scanLines\<close> converts the entries of \<open>entriesFrom\<close>, in order.\<close>

lemma convertToEvent_no_error: "convertToEvent parsedLine lineIndex notePath \<noteq> Inl e"
  by (cases "dates parsedLine") (simp_all add: convertToEvent_empty convertToEvent_Cons)

lemma tryConvert_eq:
  "tryConvert msg parsedLine i p acc =
     (case convertToEvent parsedLine i p of
        Inr (Some event) \<Rightarrow>
          acc\<lparr>result := result acc @ [event],
              events := map_option (\<lambda>es. es @ [event]) (events acc)\<rparr>
      | _ \<Rightarrow> acc)"
  using convertToEvent_no_error [of parsedLine i p]
  by (auto simp: tryConvert_def split: sum.splits option.splits)

lemma scanLines_entries:
  "scanLines p ls i acc =
     foldl (\<lambda>a ke. case convertToEvent (parseLine (snd ke)) (fst ke) p of
                      Inr (Some event) \<Rightarrow>
                        a\<lparr>result := result a @ [event],
                          events := map_option (\<lambda>es. es @ [event]) (events a)\<rparr>
                    | _ \<Rightarrow> a)
       acc (entriesFrom ls i)"
proof (induction p ls i acc rule: scanLines.induct)
  case (1 notePath fileLines currentIndex acc)
  show ?case
  proof (cases "currentIndex < length fileLines")
    case False
    then show ?thesis
      by (subst scanLines.simps, subst entriesFrom.simps) simp
  next
    case inb: True
    show ?thesis
    proof (cases "isChecklistLine (fileLines ! currentIndex)")
      case True
      from 1(1) [OF inb refl True refl refl refl] inb True show ?thesis
        by (subst scanLines.simps, subst entriesFrom.simps) (simp add: tryConvert_eq)
    next
      case False
      from 1(2) [OF inb refl False refl] inb False show ?thesis
        by (subst scanLines.simps, subst entriesFrom.simps) (simp add: tryConvert_eq)
    qed
  qed
qed

text \<open>One turn of the loop of \<open>scanLines\<close>, in either branch; the loop as a fold.\<close>

lemma scanLines_checklist:
  "i < length ls \<Longrightarrow> isChecklistLine (ls ! i) \<Longrightarrow>
   scanLines p ls i acc =
     scanLines p ls (snd (checklistEntry ls i))
       (tryConvert (js ''Got error when converting list to event: '')
          (parseLine (fst (checklistEntry ls i))) i p acc)"
  by (subst scanLines.simps) (simp add: Let_def)

lemma scanLines_plain:
  "i < length ls \<Longrightarrow> \<not> isChecklistLine (ls ! i) \<Longrightarrow>
   scanLines p ls i acc =
     scanLines p ls (i + 1)
       (tryConvert (js ''Got error when converting line to event: '')
          (parseLine \<lparr>header = [], body = ls ! i\<rparr>) i p acc)"
  by (subst scanLines.simps) (simp add: Let_def)

lemma scanLines_fold:
  "scanLines p ls i acc =
     foldl (\<lambda>a ke. tryConvert msg (parseLine (snd ke)) (fst ke) p a) acc (entriesFrom ls i)"
  by (simp add: scanLines_entries tryConvert_eq)

text \<open>The checklist pattern on a line written out in its parts.\<close>

lemma checklistRest_shape:
  assumes "list_all isSpace ind" "sp \<noteq> []" "list_all isSpace sp" "isDot c"
  shows "checklistRest (ind @ js ''-'' @ sp @ js ''['' @ [c] @ js '']'' @ rest) = Some rest"
proof -
  have a: "dropWhile isSpace (ind @ js ''-'' @ sp @ js ''['' @ [c] @ js '']'' @ rest) =
      js ''-'' @ sp @ js ''['' @ [c] @ js '']'' @ rest"
    using assms(1) by (induction ind) (simp_all add: js_def isSpace_def)
  have b: "dropWhile isSpace (sp @ js ''['' @ [c] @ js '']'' @ rest) = js ''['' @ [c] @ js '']'' @ rest"
    using assms(3) by (induction sp) (simp_all add: js_def isSpace_def)
  have s: "startsWithSpace (sp @ js ''['' @ [c] @ js '']'' @ rest)"
    using assms(2,3) by (cases sp) (simp_all add: startsWithSpace_def)
  show ?thesis
    unfolding checklistRest_def a
    using b s assms(4) by (simp add: js_def isChar_def)
qed

lemma trim_dropWhile: "trim (dropWhile isSpace s) = trim s"
  by (simp add: trim_def)

text \<open>One step of \<open>entriesFrom\<close>, in either branch.\<close>

lemma entriesFrom_checklist:
  "i < length ls \<Longrightarrow> isChecklistLine (ls ! i) \<Longrightarrow>
   entriesFrom ls i = (i, fst (checklistEntry ls i)) # entriesFrom ls (snd (checklistEntry ls i))"
  by (subst entriesFrom.simps) simp

lemma entriesFrom_plain:
  "i < length ls \<Longrightarrow> \<not> isChecklistLine (ls ! i) \<Longrightarrow>
   entriesFrom ls i = (i, \<lparr>header = [], body = ls ! i\<rparr>) # entriesFrom ls (i + 1)"
  by (subst entriesFrom.simps) simp

text \<open>Raw matches have the shape of an annotation, and are not removed from a guarded text.\<close>

lemma matchesAt_Cons:
  "matchesAt (p # ps) s \<longleftrightarrow> (\<exists>c cs. s = c # cs \<and> p c \<and> matchesAt ps cs)"
  by (cases s) auto
















text \<open>No at sign, no match.\<close>

lemma matchDueDateAt_no_at:
  "of_char CHR ''@'' \<notin> set s \<Longrightarrow> matchDueDateAt s = None"
  by (cases s) (auto simp: matchDueDateAt_def dueDateTail_def matchesAt_Cons isChar_def)

lemma dueDateMatchAll_no_at:
  "of_char CHR ''@'' \<notin> set s \<Longrightarrow> dueDateMatchAll s = []"
proof (induction s)
  case Nil
  then show ?case by (subst dueDateMatchAll.simps) (simp add: matchDueDateAt_no_at)
next
  case (Cons c s)
  then have "matchDueDateAt (c # s) = None" by (intro matchDueDateAt_no_at) simp
  with Cons show ?case by (subst dueDateMatchAll.simps) simp
qed

section \<open>The event synthesizer\<close>

text \<open>
  C1. \<open>convertToEvent\<close> returns an event if and only if the dates of the parsed entry are
  not empty; with no date it returns \<open>null\<close>, and it never raises.
\<close>

theorem convertToEvent_event_iff_dates:
  "((\<exists>event. convertToEvent parsedLine lineIndex notePath = Inr (Some event)) \<longleftrightarrow>
      dates parsedLine \<noteq> []) \<and>
   (convertToEvent parsedLine lineIndex notePath = Inr None \<longleftrightarrow> dates parsedLine = []) \<and>
   (\<forall>e. convertToEvent parsedLine lineIndex notePath \<noteq> Inl e)"
proof (cases "dates parsedLine")
  case Nil
  then show ?thesis by (simp add: convertToEvent_empty)
next
  case (Cons d0 ds)
  then show ?thesis by (simp add: convertToEvent_Cons)
qed

theorem convertToEvent_event_iff_dates_witness:
  "convertToEvent (parseLine \<lparr>header = js ''Done thing'', body = []\<rparr>) 0 (js ''a.md'') = Inr None \<and>
   (\<exists>event.
      convertToEvent (parseLine \<lparr>header = [], body = js ''call '' @ annotation ''2024-03-01''\<rparr>)
        0 (js ''a.md'') = Inr (Some event))"
proof -
  have a: "dates (parseLine \<lparr>header = js ''Done thing'', body = []\<rparr>) = []"
    by (simp add: string_eval moment_eval parser_eval)
  have b: "dates (parseLine \<lparr>header = [], body = js ''call '' @ annotation ''2024-03-01''\<rparr>) \<noteq> []"
    by (simp add: string_eval moment_eval parser_eval)
  show ?thesis
    using a b
      convertToEvent_event_iff_dates [of "parseLine \<lparr>header = js ''Done thing'', body = []\<rparr>" 0 "js ''a.md''"]
      convertToEvent_event_iff_dates [of "parseLine \<lparr>header = [], body = js ''call '' @ annotation ''2024-03-01''\<rparr>" 0 "js ''a.md''"]
    by blast
qed

text \<open>
  C5. When \<open>convertToEvent\<close> produces an event, \<open>start\<close> and \<open>end\<close> are both the
  clone of the moment of the first date and \<open>allDay\<close> is true; the dates after the first
  have no effect on the result; and for an entry that \<open>parseLine\<close> produced, that moment
  is the date as written, at midnight: day granularity.
\<close>

theorem convertToEvent_first_date:
  "(convertToEvent parsedLine lineIndex notePath = Inr (Some event) \<longrightarrow>
      start event = toDate (clone (moment (hd (dates parsedLine)))) \<and>
      end_ev event = toDate (clone (moment (hd (dates parsedLine)))) \<and>
      allDay event = True) \<and>
   convertToEvent (parsedLine\<lparr>dates := d0 # ds\<rparr>) lineIndex notePath =
     convertToEvent (parsedLine\<lparr>dates := [d0]\<rparr>) lineIndex notePath \<and>
   (convertToEvent (parseLine entry) lineIndex notePath = Inr (Some event) \<longrightarrow>
      start event = momentParse (date (hd (dates (parseLine entry)))) \<and>
      end_ev event = start event \<and>
      (\<forall>t. start event = Some t \<longrightarrow>
         hours t = 0 \<and> minutes t = 0 \<and> seconds t = 0 \<and> milliseconds t = 0))"
proof (intro conjI impI)
  assume a: "convertToEvent parsedLine lineIndex notePath = Inr (Some event)"
  then obtain d ds' where d: "dates parsedLine = d # ds'"
    by (cases "dates parsedLine") (auto simp: convertToEvent_empty)
  from a show "start event = toDate (clone (moment (hd (dates parsedLine))))"
    and "end_ev event = toDate (clone (moment (hd (dates parsedLine))))"
    and "allDay event = True"
    by (auto simp: convertToEvent_Cons [OF d] d)
next
  show "convertToEvent (parsedLine\<lparr>dates := d0 # ds\<rparr>) lineIndex notePath =
     convertToEvent (parsedLine\<lparr>dates := [d0]\<rparr>) lineIndex notePath"
    by (simp add: convertToEvent_Cons [where ?d0.0 = d0 and ds = ds]
        convertToEvent_Cons [where ?d0.0 = d0 and ds = "[]"])
next
  assume a: "convertToEvent (parseLine entry) lineIndex notePath = Inr (Some event)"
  then obtain d ds' where d: "dates (parseLine entry) = d # ds'"
    by (cases "dates (parseLine entry)") (auto simp: convertToEvent_empty)
  have ds: "dates (parseLine entry) = extractDates (body entry)"
    by (simp add: parseLine_def Let_def)
  with d have mem: "d \<in> set (extractDates (body entry))" by simp
  then have md: "moment d = momentParse (date d)"
    by (auto simp: extractDates_def)
  from a have s: "start event = moment d" and e: "end_ev event = moment d"
    by (auto simp: convertToEvent_Cons [OF d] clone_def toDate_def)
  show "start event = momentParse (date (hd (dates (parseLine entry))))"
    using s md d by simp
  show "end_ev event = start event" using s e by simp
  show "\<forall>t. start event = Some t \<longrightarrow>
         hours t = 0 \<and> minutes t = 0 \<and> seconds t = 0 \<and> milliseconds t = 0"
    using extractDates_midnight [OF mem] s by simp
qed

theorem convertToEvent_first_date_witness:
  "convertToEvent (parseLine twoDates) 3 (js ''a.md'') =
     Inr (Some \<lparr>id_ev = js ''202404100000003'', title = js ''Pay rent'',
       start = Some \<lparr>years = 2024, months = 4, days = 10, hours = 0, minutes = 0, seconds = 0, milliseconds = 0\<rparr>,
       end_ev = Some \<lparr>years = 2024, months = 4, days = 10, hours = 0, minutes = 0, seconds = 0, milliseconds = 0\<rparr>,
       allDay = True, eventType = js ''default'', path = Some (js ''a.md''), blockLink_ev = None\<rparr>) \<and>
   length (dates (parseLine twoDates)) = 2 \<and>
   start (the (projr (convertToEvent (parseLine twoDates) 3 (js ''a.md'')))) =
     toDate (clone (moment (hd (dates (parseLine twoDates)))))"
proof -
  have ev: "convertToEvent (parseLine twoDates) 3 (js ''a.md'') =
     Inr (Some \<lparr>id_ev = js ''202404100000003'', title = js ''Pay rent'',
       start = Some \<lparr>years = 2024, months = 4, days = 10, hours = 0, minutes = 0, seconds = 0, milliseconds = 0\<rparr>,
       end_ev = Some \<lparr>years = 2024, months = 4, days = 10, hours = 0, minutes = 0, seconds = 0, milliseconds = 0\<rparr>,
       allDay = True, eventType = js ''default'', path = Some (js ''a.md''), blockLink_ev = None\<rparr>)"
    by (simp add: twoDates_def string_eval moment_eval parser_eval)
  have n: "length (dates (parseLine twoDates)) = 2"
    by (simp add: twoDates_def string_eval moment_eval parser_eval)
  show ?thesis
    using convertToEvent_first_date [of "parseLine twoDates" 3 "js ''a.md''"
        "the (projr (convertToEvent (parseLine twoDates) 3 (js ''a.md'')))"] ev n
    by simp
qed

text \<open>
  C6. The \<open>id\<close> of a produced event is its start formatted as \<open>YYYYMMDDHHmm\<close>, followed
  by \<open>00\<close>, followed by the line index in decimal.
\<close>

theorem convertToEvent_id:
  "convertToEvent parsedLine lineIndex notePath = Inr (Some event) \<Longrightarrow>
   id_ev event = formatYYYYMMDDHHmm (start event) @ js ''00'' @ showNat lineIndex"
proof -
  assume a: "convertToEvent parsedLine lineIndex notePath = Inr (Some event)"
  then obtain d ds' where d: "dates parsedLine = d # ds'"
    by (cases "dates parsedLine") (auto simp: convertToEvent_empty)
  from a show ?thesis
    by (auto simp: convertToEvent_Cons [OF d] clone_def toDate_def)
qed

theorem convertToEvent_id_witness:
  "start (the (projr (convertToEvent march1 7 (js ''a.md'')))) =
     Some \<lparr>years = 2024, months = 3, days = 1, hours = 0, minutes = 0, seconds = 0, milliseconds = 0\<rparr> \<and>
   formatYYYYMMDDHHmm (start (the (projr (convertToEvent march1 7 (js ''a.md''))))) = js ''202403010000'' \<and>
   showNat 7 = js ''7'' \<and>
   id_ev (the (projr (convertToEvent march1 7 (js ''a.md'')))) = js ''202403010000'' @ js ''00'' @ js ''7''"
proof -
  have ev: "convertToEvent march1 7 (js ''a.md'') =
     Inr (Some \<lparr>id_ev = js ''202403010000007'', title = js ''Buy milk'',
       start = Some \<lparr>years = 2024, months = 3, days = 1, hours = 0, minutes = 0, seconds = 0, milliseconds = 0\<rparr>,
       end_ev = Some \<lparr>years = 2024, months = 3, days = 1, hours = 0, minutes = 0, seconds = 0, milliseconds = 0\<rparr>,
       allDay = True, eventType = js ''default'', path = Some (js ''a.md''), blockLink_ev = None\<rparr>)"
    by (simp add: march1_def string_eval moment_eval parser_eval)
  have f: "formatYYYYMMDDHHmm (Some \<lparr>years = 2024, months = 3, days = 1, hours = 0, minutes = 0, seconds = 0, milliseconds = 0\<rparr>) = js ''202403010000''"
    by (simp add: string_eval moment_eval)
  have s: "showNat 7 = js ''7''" by (simp add: string_eval)
  from convertToEvent_id [OF ev] ev f s show ?thesis by simp
qed

section \<open>The entry parser\<close>

text \<open>
  C3. \<open>parseLine\<close> extracts the dates from the body alone: the dates of the parsed entry
  are those of the body, whatever the header is, so an annotation that stands in the header
  and not in the body contributes no date; a body without an at sign gives no date at all.
\<close>

theorem parseLine_dates_from_body:
  "dates (parseLine \<lparr>header = h, body = b\<rparr>) = extractDates b \<and>
   dates (parseLine \<lparr>header = h, body = b\<rparr>) = dates (parseLine \<lparr>header = h', body = b\<rparr>) \<and>
   (of_char CHR ''@'' \<notin> set b \<longrightarrow> dates (parseLine \<lparr>header = h, body = b\<rparr>) = [])"
  by (simp add: parseLine_def Let_def extractDates_def dueDateMatchAll_no_at)

theorem parseLine_dates_from_body_witness:
  "extractDates (js ''Buy milk '' @ annotation ''2024-03-01'') \<noteq> [] \<and>
   dates (parseLine \<lparr>header = js ''Buy milk '' @ annotation ''2024-03-01'', body = []\<rparr>) = [] \<and>
   dates (parseLine \<lparr>header = js ''Buy milk '' @ annotation ''2024-03-01'', body = js ''soon''\<rparr>) = []"
proof -
  have a: "extractDates (js ''Buy milk '' @ annotation ''2024-03-01'') \<noteq> []"
    by (simp add: string_eval moment_eval parser_eval)
  have b: "of_char CHR ''@'' \<notin> set ([] :: jsstring)" "of_char CHR ''@'' \<notin> set (js ''soon'')"
    by (simp_all add: js_def)
  have c: "dates (parseLine \<lparr>header = js ''Buy milk '' @ annotation ''2024-03-01'', body = []\<rparr>) = []"
    using b(1) parseLine_dates_from_body [of "js ''Buy milk '' @ annotation ''2024-03-01''" "[]"]
    by blast
  have d: "dates (parseLine \<lparr>header = js ''Buy milk '' @ annotation ''2024-03-01'',
      body = js ''soon''\<rparr>) = []"
    using b(2)
      parseLine_dates_from_body [of "js ''Buy milk '' @ annotation ''2024-03-01''" "js ''soon''"]
    by blast
  from a c d show ?thesis by blast
qed

section \<open>The status mapper\<close>

text \<open>
  C8, as the code has it. \<open>getMarkBasedOnEvent\<close> returns \<open>null\<close> exactly for the labels
  that do not start with \<open>TASK-\<close> (the empty label among them). For a label that starts
  with \<open>TASK-\<close> and whose kind, the text between the first and the second hyphen, is none
  of the kinds with a \<open>case\<close>, the \<open>default\<close> branch returns the space character.
\<close>

theorem getMarkBasedOnEvent_null_iff:
  "(getMarkBasedOnEvent label = None \<longleftrightarrow> \<not> prefix (js ''TASK-'') label) \<and>
   (prefix (js ''TASK-'') label \<longrightarrow>
      (\<forall>k \<in> set recognizedKinds. second_elem (splitHyphen label) \<noteq> Some k) \<longrightarrow>
      getMarkBasedOnEvent label = Some (js '' ''))"
  using getMarkBasedOnEvent_not_task getMarkBasedOnEvent_task getMarkBasedOnEvent_default
  by blast

text \<open>
  The claim as stated fails: the label \<open>TASK-MEETING\<close> has an unrecognized kind and gets
  the space character, not \<open>null\<close>.
\<close>

theorem getMarkBasedOnEvent_unrecognized_counterexample:
  "getMarkBasedOnEvent (js ''TASK-MEETING'') = Some (js '' '') \<and>
   getMarkBasedOnEvent (js ''TASK-MEETING'') \<noteq> None"
  by (simp add: getMarkBasedOnEvent_def second_elem_def js_def)

theorem getMarkBasedOnEvent_null_iff_witness:
  "getMarkBasedOnEvent (js ''TASK-IDEA-2'') = Some (js ''i'') \<and>
   getMarkBasedOnEvent (js ''EVENT-DONE'') = None \<and>
   getMarkBasedOnEvent (js ''TASK-'') = Some (js '' '')"
proof -
  have a: "getMarkBasedOnEvent (js ''TASK-IDEA-2'') = Some (js ''i'')"
    by (simp add: getMarkBasedOnEvent_def second_elem_def js_def)
  have b: "\<not> prefix (js ''TASK-'') (js ''EVENT-DONE'')" by (simp add: js_def)
  have c: "prefix (js ''TASK-'') (js ''TASK-'')" by simp
  have d: "\<forall>k \<in> set recognizedKinds. second_elem (splitHyphen (js ''TASK-'')) \<noteq> Some k"
    by (simp add: recognizedKinds_def second_elem_def js_def)
  show ?thesis
    using a b c d getMarkBasedOnEvent_null_iff [of "js ''EVENT-DONE''"]
      getMarkBasedOnEvent_null_iff [of "js ''TASK-''"]
    by blast
qed

section \<open>The filter predicate\<close>

text \<open>
  C9. A \<open>contentRegex\<close> that does not compile never rejects: the predicate gives the same
  result as for the query without \<open>contentRegex\<close>, for every event, every query and
  every engine.
\<close>

theorem eventMatchesFilter_invalid_regex:
  "newRegExp pattern = None \<Longrightarrow>
   eventMatchesFilter newRegExp event (filter'\<lparr>contentRegex := Some pattern\<rparr>) =
   eventMatchesFilter newRegExp event (filter'\<lparr>contentRegex := None\<rparr>)"
  by (simp add: eventMatchesFilter_def truthy_def)

theorem eventMatchesFilter_invalid_regex_witness:
  "toyRegExp (js ''('') = None \<and>
   eventMatchesFilter toyRegExp workEvent
     \<lparr>eventTypeQ = None, contentRegex = Some (js ''(''), folderPaths = Some [js ''work/'']\<rparr> = True \<and>
   eventMatchesFilter toyRegExp workEvent
     \<lparr>eventTypeQ = None, contentRegex = Some (js ''Sell''), folderPaths = Some [js ''work/'']\<rparr> = False \<and>
   eventMatchesFilter toyRegExp workEvent
     \<lparr>eventTypeQ = None, contentRegex = Some (js ''(''), folderPaths = Some [js ''home/'']\<rparr> = False"
proof -
  have bad: "toyRegExp (js ''('') = None" by (simp add: toyRegExp_def)
  have a: "eventMatchesFilter toyRegExp workEvent
     \<lparr>eventTypeQ = None, contentRegex = None, folderPaths = Some [js ''work/'']\<rparr> = True"
    by (simp add: eventMatchesFilter_def truthy_def workEvent_def js_def)
  have b: "eventMatchesFilter toyRegExp workEvent
     \<lparr>eventTypeQ = None, contentRegex = None, folderPaths = Some [js ''home/'']\<rparr> = False"
    by (simp add: eventMatchesFilter_def truthy_def workEvent_def js_def)
  have c: "eventMatchesFilter toyRegExp workEvent
     \<lparr>eventTypeQ = None, contentRegex = Some (js ''Sell''), folderPaths = Some [js ''work/'']\<rparr> = False"
    by (simp add: eventMatchesFilter_def truthy_def workEvent_def toyRegExp_def js_def)
  show ?thesis
    using bad a b c
      eventMatchesFilter_invalid_regex [of toyRegExp "js ''(''" workEvent
        "\<lparr>eventTypeQ = None, contentRegex = None, folderPaths = Some [js ''work/'']\<rparr>"]
      eventMatchesFilter_invalid_regex [of toyRegExp "js ''(''" workEvent
        "\<lparr>eventTypeQ = None, contentRegex = None, folderPaths = Some [js ''home/'']\<rparr>"]
    by simp
qed

section \<open>The line grouper\<close>

text \<open>
  C2, as the code has it. The checklist line \<open>- [ ] Buy milk\<close> followed by the annotation
  of 2024-03-01, at line index 2 of the note \<open>notes/todo.md\<close>, makes one entry whose header
  holds the annotation and whose body is empty, and yields no event, since the dates are
  taken from the body. With the annotation on an indented line below the checklist line
  the entry yields exactly the event of the scenario: title \<open>Buy milk\<close>, start and end on
  2024-03-01, all day, path \<open>notes/todo.md\<close>.
\<close>

theorem buy_milk_scenario:
  "entriesFrom buyMilkHeader 2 =
     [(2, \<lparr>header = js ''Buy milk '' @ annotation ''2024-03-01'', body = []\<rparr>)] \<and>
   result (getEventsFromFile (Some (js ''notes/todo.md'')) buyMilkHeader None) = [] \<and>
   entriesFrom buyMilkBody 2 =
     [(2, \<lparr>header = js ''Buy milk'', body = annotation ''2024-03-01''\<rparr>)] \<and>
   result (getEventsFromFile (Some (js ''notes/todo.md'')) buyMilkBody None) = [buyMilkEvent]"
proof (intro conjI)
  show "entriesFrom buyMilkHeader 2 =
     [(2, \<lparr>header = js ''Buy milk '' @ annotation ''2024-03-01'', body = []\<rparr>)]"
    by (simp add: buyMilkHeader_def string_eval grouper_eval)
  show "result (getEventsFromFile (Some (js ''notes/todo.md'')) buyMilkHeader None) = []"
    by (simp add: buyMilkHeader_def string_eval moment_eval parser_eval grouper_eval)
  show "entriesFrom buyMilkBody 2 =
     [(2, \<lparr>header = js ''Buy milk'', body = annotation ''2024-03-01''\<rparr>)]"
    by (simp add: buyMilkBody_def string_eval grouper_eval)
  show "result (getEventsFromFile (Some (js ''notes/todo.md'')) buyMilkBody None) = [buyMilkEvent]"
    by (simp add: buyMilkBody_def buyMilkEvent_def string_eval moment_eval parser_eval grouper_eval)
qed

text \<open>The claim as stated fails: the single line yields no event.\<close>

theorem buy_milk_header_counterexample:
  "result (getEventsFromFile (Some (js ''notes/todo.md'')) buyMilkHeader None) = [] \<and>
   length (result (getEventsFromFile (Some (js ''notes/todo.md'')) buyMilkHeader None)) \<noteq> 1"
  by (simp add: buyMilkHeader_def string_eval moment_eval parser_eval grouper_eval)

text \<open>
  C4, as the code has it. For a line the grouper recognizes as a checklist line, the parsed
  entry records no status: \<open>statusCharacter\<close> and \<open>taskStatus\<close> are absent and \<open>isTask\<close>
  is false. The checkbox is removed with its status character, whatever it is: the header is
  the trimmed text after the closing bracket.
\<close>

theorem checklist_status_not_recorded:
  "(isChecklistLine (fileLines ! i) \<longrightarrow>
      statusCharacter (parseLine (fst (checklistEntry fileLines i))) = None \<and>
      taskStatus (parseLine (fst (checklistEntry fileLines i))) = None \<and>
      isTask (parseLine (fst (checklistEntry fileLines i))) = False) \<and>
   (list_all isSpace ind \<and> sp \<noteq> [] \<and> list_all isSpace sp \<and> isDot c \<and>
    fileLines ! i = ind @ js ''-'' @ sp @ js ''['' @ [c] @ js '']'' @ rest \<longrightarrow>
      isChecklistLine (fileLines ! i) \<and>
      header (fst (checklistEntry fileLines i)) = trim rest)"
proof (intro conjI impI)
  assume a: "list_all isSpace ind \<and> sp \<noteq> [] \<and> list_all isSpace sp \<and> isDot c \<and>
    fileLines ! i = ind @ js ''-'' @ sp @ js ''['' @ [c] @ js '']'' @ rest"
  then have r: "checklistRest (fileLines ! i) = Some rest"
    using checklistRest_shape [of ind sp c rest] by simp
  then show "isChecklistLine (fileLines ! i)" by (simp add: isChecklistLine_def)
  from r show "header (fst (checklistEntry fileLines i)) = trim rest"
    by (simp add: checklistEntry_eq stripCheckbox_def trim_dropWhile)
qed (simp_all add: parseLine_def Let_def)

text \<open>
  The claim as stated fails: for \<open>- [x] Done thing\<close> the table maps \<open>x\<close> to \<open>Done\<close>, and
  the parsed entry has neither the character nor the status.
\<close>

theorem checklist_status_counterexample:
  "isChecklistLine ([js ''- [x] Done thing''] ! 0) \<and>
   statusOf (of_char CHR ''x'') = Some Done \<and>
   \<not> (statusCharacter (parseLine (fst (checklistEntry [js ''- [x] Done thing''] 0))) = Some (js ''x'') \<and>
      taskStatus (parseLine (fst (checklistEntry [js ''- [x] Done thing''] 0))) = statusOf (of_char CHR ''x''))"
  by (simp add: string_eval grouper_eval parseLine_def statusOf_def STATUS_MAPPING_def)

theorem checklist_status_not_recorded_witness:
  "isChecklistLine ([js ''- [x] Done thing''] ! 0) \<and>
   statusCharacter (parseLine (fst (checklistEntry [js ''- [x] Done thing''] 0))) = None \<and>
   taskStatus (parseLine (fst (checklistEntry [js ''- [x] Done thing''] 0))) = None \<and>
   isTask (parseLine (fst (checklistEntry [js ''- [x] Done thing''] 0))) = False \<and>
   header (fst (checklistEntry [js ''- [x] Done thing''] 0)) = js ''Done thing''"
proof -
  have l: "[js ''- [x] Done thing''] ! 0 =
      [] @ js ''-'' @ js '' '' @ js ''['' @ [of_char CHR ''x''] @ js '']'' @ js '' Done thing''"
    by (simp add: js_def)
  have s: "list_all isSpace [] \<and> js '' '' \<noteq> [] \<and> list_all isSpace (js '' '') \<and>
     isDot (of_char CHR ''x'')"
    by (simp add: js_def isSpace_def isDot_def)
  have t: "trim (js '' Done thing'') = js ''Done thing''" by (simp add: string_eval)
  show ?thesis
    using l s t
      checklist_status_not_recorded [of "[js ''- [x] Done thing'']" 0 "[]" "js '' ''"
        "of_char CHR ''x''" "js '' Done thing''"]
    by simp
qed

text \<open>
  C7. When a checklist line is followed by one indented line that is not a checklist line
  and then by a line that is not indented, wherever in the note:
  \<^item> the body of the entry is exactly the indented line, trimmed, and the index after the
    entry is that of the third line;
  \<^item> the loop of \<open>getEventsFromFile\<close>, at the checklist line, converts that entry and goes on
    at the third line: consumption has stopped there;
  \<^item> at the third line the loop starts a new entry: the entry of that checklist line if it is
    one, the line alone otherwise;
  \<^item> \<open>getEventsFromFile\<close> converts, in order, the entries of the note, among which the two
    stand next to each other.
\<close>

theorem body_consumption_boundary:
  assumes "isChecklistLine l0" and "startsWithSpace l1" and "\<not> isChecklistLine l1"
    and "\<not> startsWithSpace l2"
  shows "checklistEntry (pre @ l0 # l1 # l2 # post) (length pre) =
           (\<lparr>header = trim (stripCheckbox l0), body = trim l1\<rparr>, length pre + 2) \<and>
         scanLines notePath (pre @ l0 # l1 # l2 # post) (length pre) acc =
           scanLines notePath (pre @ l0 # l1 # l2 # post) (length pre + 2)
             (tryConvert (js ''Got error when converting list to event: '')
                (parseLine \<lparr>header = trim (stripCheckbox l0), body = trim l1\<rparr>)
                (length pre) notePath acc) \<and>
         scanLines notePath (pre @ l0 # l1 # l2 # post) (length pre + 2) acc =
           (if isChecklistLine l2
            then scanLines notePath (pre @ l0 # l1 # l2 # post)
                   (snd (checklistEntry (pre @ l0 # l1 # l2 # post) (length pre + 2)))
                   (tryConvert (js ''Got error when converting list to event: '')
                      (parseLine (fst (checklistEntry (pre @ l0 # l1 # l2 # post) (length pre + 2))))
                      (length pre + 2) notePath acc)
            else scanLines notePath (pre @ l0 # l1 # l2 # post) (length pre + 3)
                   (tryConvert (js ''Got error when converting line to event: '')
                      (parseLine \<lparr>header = [], body = l2\<rparr>) (length pre + 2) notePath acc)) \<and>
         (\<exists>before e2 after.
            entriesFrom (pre @ l0 # l1 # l2 # post) 0 =
              before @ (length pre, \<lparr>header = trim (stripCheckbox l0), body = trim l1\<rparr>) #
                (length pre + 2, e2) # after \<and>
            e2 = (if isChecklistLine l2
                  then fst (checklistEntry (pre @ l0 # l1 # l2 # post) (length pre + 2))
                  else \<lparr>header = [], body = l2\<rparr>) \<and>
            getEventsFromFile (Some notePath) (pre @ l0 # l1 # l2 # post) events' =
              foldl (\<lambda>a ke. tryConvert msg (parseLine (snd ke)) (fst ke) notePath a)
                \<lparr>result = [], events = events', notices = []\<rparr>
                (before @ (length pre, \<lparr>header = trim (stripCheckbox l0), body = trim l1\<rparr>) #
                   (length pre + 2, e2) # after))"
proof -
  let ?ls = "pre @ l0 # l1 # l2 # post"
  let ?i = "length pre"
  have n0: "?ls ! ?i = l0" by simp
  have n1: "?ls ! (?i + 1) = l1" by (simp add: nth_append)
  have n2: "?ls ! (?i + 2) = l2" by (simp add: nth_append)
  have "collectBody ?ls (?i + 1) [] = collectBody ?ls (?i + 1 + 1) ([] @ [trim (?ls ! (?i + 1))])"
    using assms(2,3) n1 by (intro collectBody_step) simp_all
  also have "\<dots> = collectBody ?ls (?i + 2) [trim l1]" using n1 by simp
  also have "\<dots> = ([trim l1], ?i + 2)"
    using assms(4) n2 by (intro collectBody_stop) simp
  finally have cb: "collectBody ?ls (?i + 1) [] = ([trim l1], ?i + 2)" .
  have ce: "checklistEntry ?ls ?i = (\<lparr>header = trim (stripCheckbox l0), body = trim l1\<rparr>, ?i + 2)"
    using cb n0 by (simp add: checklistEntry_eq)
  have s1: "scanLines notePath ?ls ?i acc =
      scanLines notePath ?ls (?i + 2)
        (tryConvert (js ''Got error when converting list to event: '')
           (parseLine \<lparr>header = trim (stripCheckbox l0), body = trim l1\<rparr>) ?i notePath acc)"
    using scanLines_checklist [of ?i ?ls notePath acc] assms(1) n0 ce by simp
  have s2: "scanLines notePath ?ls (?i + 2) acc =
           (if isChecklistLine l2
            then scanLines notePath ?ls (snd (checklistEntry ?ls (?i + 2)))
                   (tryConvert (js ''Got error when converting list to event: '')
                      (parseLine (fst (checklistEntry ?ls (?i + 2)))) (?i + 2) notePath acc)
            else scanLines notePath ?ls (?i + 3)
                   (tryConvert (js ''Got error when converting line to event: '')
                      (parseLine \<lparr>header = [], body = l2\<rparr>) (?i + 2) notePath acc))"
    using scanLines_checklist [of "?i + 2" ?ls notePath acc]
      scanLines_plain [of "?i + 2" ?ls notePath acc] n2
    by (simp add: numeral_3_eq_3)
  have e1: "entriesFrom ?ls ?i =
      (?i, \<lparr>header = trim (stripCheckbox l0), body = trim l1\<rparr>) # entriesFrom ?ls (?i + 2)"
    using entriesFrom_checklist [of ?i ?ls] assms(1) n0 ce by simp
  have e2: "entriesFrom ?ls (?i + 2) =
      (?i + 2, if isChecklistLine l2 then fst (checklistEntry ?ls (?i + 2))
               else \<lparr>header = [], body = l2\<rparr>) #
      entriesFrom ?ls (if isChecklistLine l2 then snd (checklistEntry ?ls (?i + 2)) else ?i + 2 + 1)"
    using entriesFrom_checklist [of "?i + 2" ?ls] entriesFrom_plain [of "?i + 2" ?ls] n2
    by simp
  obtain before where b: "entriesFrom ?ls 0 = before @ entriesFrom ?ls ?i"
    using entriesFrom_suffix [of 0 ?i ?ls] assms(1) n0 by auto
  have g: "getEventsFromFile (Some notePath) ?ls events' =
      foldl (\<lambda>a ke. tryConvert msg (parseLine (snd ke)) (fst ke) notePath a)
        \<lparr>result = [], events = events', notices = []\<rparr> (entriesFrom ?ls 0)"
    by (simp add: getEventsFromFile_def scanLines_fold [of _ _ _ _ msg])
  let ?e2 = "if isChecklistLine l2 then fst (checklistEntry ?ls (?i + 2))
               else \<lparr>header = [], body = l2\<rparr>"
  let ?after = "entriesFrom ?ls (if isChecklistLine l2 then snd (checklistEntry ?ls (?i + 2)) else ?i + 2 + 1)"
  have sh: "entriesFrom ?ls 0 =
      before @ (?i, \<lparr>header = trim (stripCheckbox l0), body = trim l1\<rparr>) # (?i + 2, ?e2) # ?after"
    using b e1 e2 by simp
  have ex: "\<exists>before e2 after.
            entriesFrom ?ls 0 =
              before @ (?i, \<lparr>header = trim (stripCheckbox l0), body = trim l1\<rparr>) #
                (?i + 2, e2) # after \<and>
            e2 = ?e2 \<and>
            getEventsFromFile (Some notePath) ?ls events' =
              foldl (\<lambda>a ke. tryConvert msg (parseLine (snd ke)) (fst ke) notePath a)
                \<lparr>result = [], events = events', notices = []\<rparr>
                (before @ (?i, \<lparr>header = trim (stripCheckbox l0), body = trim l1\<rparr>) #
                   (?i + 2, e2) # after)"
    using sh g by (intro exI [of _ before] exI [of _ ?e2] exI [of _ ?after]) simp
  from ce s1 s2 ex show ?thesis by blast
qed


theorem body_consumption_boundary_witness:
  "isChecklistLine (js ''- [ ] Call Bob'') \<and>
   startsWithSpace (js ''    '' @ annotation ''2024-03-01'' @ js ''  '') \<and>
   \<not> isChecklistLine (js ''    '' @ annotation ''2024-03-01'' @ js ''  '') \<and>
   \<not> startsWithSpace (js ''Other note '' @ annotation ''2024-03-02'') \<and>
   checklistEntry callBob 1 =
     (\<lparr>header = js ''Call Bob'', body = annotation ''2024-03-01''\<rparr>, 3) \<and>
   scanLines (js ''a.md'') callBob 1 \<lparr>result = [], events = None, notices = []\<rparr> =
     scanLines (js ''a.md'') callBob 3
       (tryConvert (js ''Got error when converting list to event: '')
          (parseLine \<lparr>header = js ''Call Bob'', body = annotation ''2024-03-01''\<rparr>) 1 (js ''a.md'')
          \<lparr>result = [], events = None, notices = []\<rparr>) \<and>
   result (tryConvert (js ''Got error when converting list to event: '')
          (parseLine \<lparr>header = js ''Call Bob'', body = annotation ''2024-03-01''\<rparr>) 1 (js ''a.md'')
          \<lparr>result = [], events = None, notices = []\<rparr>) = [hd callBobEvents] \<and>
   result (getEventsFromFile (Some (js ''a.md'')) callBob None) = callBobEvents \<and>
   (\<exists>before after.
      entriesFrom callBob 0 =
        before @ (1, \<lparr>header = js ''Call Bob'', body = annotation ''2024-03-01''\<rparr>) #
          (3, \<lparr>header = [], body = js ''Other note '' @ annotation ''2024-03-02''\<rparr>) # after)"
proof -
  have a: "isChecklistLine (js ''- [ ] Call Bob'')"
    "startsWithSpace (js ''    '' @ annotation ''2024-03-01'' @ js ''  '')"
    "\<not> isChecklistLine (js ''    '' @ annotation ''2024-03-01'' @ js ''  '')"
    "\<not> startsWithSpace (js ''Other note '' @ annotation ''2024-03-02'')"
    by (simp_all add: string_eval grouper_eval)
  have c: "callBob = [js ''# Tasks''] @ js ''- [ ] Call Bob'' #
      (js ''    '' @ annotation ''2024-03-01'' @ js ''  '') #
      (js ''Other note '' @ annotation ''2024-03-02'') # []" "length [js ''# Tasks''] = 1"
    by (simp_all add: callBob_def)
  have t: "trim (stripCheckbox (js ''- [ ] Call Bob'')) = js ''Call Bob''"
    "trim (js ''    '' @ annotation ''2024-03-01'' @ js ''  '') = annotation ''2024-03-01''"
    by (simp_all add: string_eval grouper_eval)
  have n: "\<not> isChecklistLine (js ''Other note '' @ annotation ''2024-03-02'')"
    by (simp add: string_eval grouper_eval)
  have r1: "result (tryConvert (js ''Got error when converting list to event: '')
          (parseLine \<lparr>header = js ''Call Bob'', body = annotation ''2024-03-01''\<rparr>) 1 (js ''a.md'')
          \<lparr>result = [], events = None, notices = []\<rparr>) = [hd callBobEvents]"
    by (simp add: callBobEvents_def string_eval moment_eval parser_eval grouper_eval)
  have r: "result (getEventsFromFile (Some (js ''a.md'')) callBob None) = callBobEvents"
    by (simp add: callBob_def callBobEvents_def string_eval moment_eval parser_eval grouper_eval)
  note th = body_consumption_boundary [OF a, of "[js ''# Tasks'']" "[]" "js ''a.md''"
      "\<lparr>result = [], events = None, notices = []\<rparr>" None "[]", folded c(1), unfolded c(2) t]
  have p1: "checklistEntry callBob 1 =
     (\<lparr>header = js ''Call Bob'', body = annotation ''2024-03-01''\<rparr>, 3)"
    using th [THEN conjunct1] by (simp add: numeral_3_eq_3)
  have p2: "scanLines (js ''a.md'') callBob 1 \<lparr>result = [], events = None, notices = []\<rparr> =
     scanLines (js ''a.md'') callBob 3
       (tryConvert (js ''Got error when converting list to event: '')
          (parseLine \<lparr>header = js ''Call Bob'', body = annotation ''2024-03-01''\<rparr>) 1 (js ''a.md'')
          \<lparr>result = [], events = None, notices = []\<rparr>)"
    using th [THEN conjunct2, THEN conjunct1] by (simp add: numeral_3_eq_3)
  from th [THEN conjunct2, THEN conjunct2, THEN conjunct2] n
  obtain before after where
    "entriesFrom callBob 0 =
        before @ (1, \<lparr>header = js ''Call Bob'', body = annotation ''2024-03-01''\<rparr>) #
          (1 + 2, \<lparr>header = [], body = js ''Other note '' @ annotation ''2024-03-02''\<rparr>) # after"
    by (auto simp: numeral_3_eq_3)
  then have p3: "\<exists>before after.
      entriesFrom callBob 0 =
        before @ (1, \<lparr>header = js ''Call Bob'', body = annotation ''2024-03-01''\<rparr>) #
          (3, \<lparr>header = [], body = js ''Other note '' @ annotation ''2024-03-02''\<rparr>) # after"
    by (auto simp: numeral_3_eq_3)
  from a p1 p2 r1 r p3 show ?thesis by blast
qed




end
